theory Spec2Isabelle
  imports Main "HOL-Library.Sublist"
begin

unbundle bit_operations_syntax

section \<open>JavaScript strings\<close>

text \<open>
  A JavaScript string is modelled as a \<^typ>\<open>string\<close>: one \<^typ>\<open>char\<close> per code unit, for
  text whose code units are below 256. \<open>length\<close> is then the \<open>.length\<close> of the source.
\<close>

definition dq :: char where
  "dq = CHR 0x22"

definition sq :: char where
  "sq = CHR 0x27"

definition nl :: char where
  "nl = CHR 0x0A"

definition quoted :: "string \<Rightarrow> string" where
  "quoted s = dq # s @ [dq]"

text \<open>White space of \<open>String.prototype.trim\<close> and of \<open>parseInt\<close> among the code units below
  256: TAB, LF, VT, FF, CR, SPACE and NBSP.\<close>

definition isWhiteSpace :: "char \<Rightarrow> bool" where
  "isWhiteSpace c \<longleftrightarrow>
     c \<in> {CHR 0x09, CHR 0x0A, CHR 0x0B, CHR 0x0C, CHR 0x0D, CHR 0x20, CHR 0xA0}"

text \<open>The characters that \<open>.\<close> of a regular expression does not match.\<close>

definition isLineTerminator :: "char \<Rightarrow> bool" where
  "isLineTerminator c \<longleftrightarrow> c \<in> {CHR 0x0A, CHR 0x0D}"

definition trim :: "string \<Rightarrow> string" where
  "trim s = rev (dropWhile isWhiteSpace (rev (dropWhile isWhiteSpace s)))"

definition startsWith :: "string \<Rightarrow> string \<Rightarrow> bool" where
  "startsWith s p \<longleftrightarrow> prefix p s"

definition endsWith :: "string \<Rightarrow> string \<Rightarrow> bool" where
  "endsWith s p \<longleftrightarrow> suffix p s"

text \<open>\<open>s.replace(/a/g, b)\<close> for single characters \<open>a\<close>, \<open>b\<close>.\<close>

definition replaceAll :: "char \<Rightarrow> char \<Rightarrow> string \<Rightarrow> string" where
  "replaceAll a b s = map (\<lambda>c. if c = a then b else c) s"

text \<open>\<open>/c/.test(s)\<close> for a single character, and \<open>/c/i.test(s)\<close> for a letter given in
  both cases.\<close>

definition test_char :: "char \<Rightarrow> string \<Rightarrow> bool" where
  "test_char c s \<longleftrightarrow> c \<in> set s"

definition test_char_i :: "char \<Rightarrow> char \<Rightarrow> string \<Rightarrow> bool" where
  "test_char_i lower upper s \<longleftrightarrow> lower \<in> set s \<or> upper \<in> set s"

text \<open>\<open>s.split("\n")\<close>: the pieces between line feeds; a string with no line feed is one
  piece, and a trailing line feed gives a last empty piece.\<close>

fun split_nl :: "string \<Rightarrow> string list" where
  "split_nl [] = [[]]"
| "split_nl (c # cs) =
     (if c = nl then [] # split_nl cs
      else (case split_nl cs of [] \<Rightarrow> [[c]] | l # ls \<Rightarrow> (c # l) # ls))"

text \<open>\<open>xs.join(" ")\<close>.\<close>

fun join_sp :: "string list \<Rightarrow> string" where
  "join_sp [] = []"
| "join_sp [x] = x"
| "join_sp (x # y # ys) = x @ '' '' @ join_sp (y # ys)"

text \<open>A natural number in decimal, as a template literal prints it.\<close>

fun dec :: "nat \<Rightarrow> string" where
  "dec n = (if n < 10 then [char_of (48 + n)] else dec (n div 10) @ [char_of (48 + n mod 10)])"

declare dec.simps [simp del]

definition dec_int :: "int \<Rightarrow> string" where
  "dec_int i = (if i < 0 then CHR ''-'' # dec (nat (- i)) else dec (nat i))"

section \<open>The world outside the process\<close>

text \<open>
  Every call that leaves the process is recorded, in order, in a trace. What the outside
  answers is given by a \<open>world\<close>: one function per kind of call, from the trace so far and
  the call's argument to the answer. Nothing is assumed about the answers, so a theorem
  about all worlds covers every file system, backend and user.
\<close>

datatype call =
    ExistsSync string
  | LstatSync string
  | RealpathSync string
  | WriteFileSync string string
  | StatSync string
  | MkdirSync string
  | UnlinkSync string
  | ChmodSync string int
  | ExecSync string
  | Shell string bool
  | SpawnSync string "string list"
  | SpawnEditor string "string list"
  | CreateInterface
  | CloseInterface
  | Question string
  | ConsoleLog string
  | ConsoleError string
  | ESLint string

text \<open>What \<open>spawnSync\<close> gives back: \<open>status\<close> is \<open>null\<close> (here \<open>None\<close>) when the child was
  killed, for instance at the timeout.\<close>

record spawn_result =
  status :: "int option"
  stdout :: string

record stats =
  nlink :: nat
  mode :: int
  isFile :: bool
  isSymbolicLink :: bool

text \<open>A call that can throw answers \<open>Inl message\<close> for the exception.\<close>

record world =
  fs_exists :: "call list \<Rightarrow> string \<Rightarrow> bool"
  fs_lstat :: "call list \<Rightarrow> string \<Rightarrow> string + stats"
  fs_realpath :: "call list \<Rightarrow> string \<Rightarrow> string + string"
  fs_write :: "call list \<Rightarrow> string \<Rightarrow> string option"
  fs_stat :: "call list \<Rightarrow> string \<Rightarrow> string + stats"
  fs_mkdir :: "call list \<Rightarrow> string \<Rightarrow> string option"
  run :: "call list \<Rightarrow> string \<Rightarrow> string + spawn_result"
  claude :: "call list \<Rightarrow> string list \<Rightarrow> string + spawn_result"
  ask :: "call list \<Rightarrow> string \<Rightarrow> string"
  lint :: "call list \<Rightarrow> string \<Rightarrow> bool"

text \<open>The module's constants that come from the environment of the process, and the
  functions of Node's \<open>path\<close> module, which are not part of the program.\<close>

record config =
  RCS_ROOT :: string
  EDITOR :: string
  HOME_DIR :: string
  CLAUDE_CLI :: string
  IS_MACOS :: bool
  pid :: string
  cwd :: string
  resolve :: "string \<Rightarrow> string"
  dirname :: "string \<Rightarrow> string"
  basename :: "string \<Rightarrow> string"

text \<open>The mutable module variables \<open>rl\<close> (is there an open readline interface) and
  \<open>enableSyntaxCheck\<close>, together with the trace.\<close>

record state =
  trace :: "call list"
  rl :: bool
  enableSyntaxCheck :: bool

definition init :: state where
  "init = \<lparr>trace = [], rl = False, enableSyntaxCheck = False\<rparr>"

definition emit :: "call \<Rightarrow> state \<Rightarrow> state" where
  "emit c s = s\<lparr>trace := trace s @ [c]\<rparr>"

definition console_log :: "string \<Rightarrow> state \<Rightarrow> state" where
  "console_log m s = emit (ConsoleLog m) s"

definition console_error :: "string \<Rightarrow> state \<Rightarrow> state" where
  "console_error m s = emit (ConsoleError m) s"

text \<open>How a function of the program ends: it returns a value, it throws, or (a loop over
  \<open>dirname\<close>) it never ends. The state is the one reached at that point.\<close>

datatype 'a outcome = Diverged | Threw string | Returned 'a

subsection \<open>Configuration constants\<close>

definition RCS_DIR :: string where
  "RCS_DIR = ''.rcs''"

definition RCS_CHECKOUT :: "config \<Rightarrow> string" where
  "RCS_CHECKOUT C = RCS_ROOT C @ ''/co -l -zLT''"

definition RCS_CHECKIN_BASE :: "config \<Rightarrow> string" where
  "RCS_CHECKIN_BASE C = RCS_ROOT C @ ''/ci -u -zLT''"

definition RCS_LOCK :: "config \<Rightarrow> string" where
  "RCS_LOCK C = RCS_ROOT C @ ''/rcs -l -q -zLT''"

definition RCS_UNLOCK :: "config \<Rightarrow> string" where
  "RCS_UNLOCK C = RCS_ROOT C @ ''/rcs -u -q -zLT''"

definition RCS_DIFF :: "config \<Rightarrow> string" where
  "RCS_DIFF C = RCS_ROOT C @ ''/rcsdiff -u -zLT''"

definition RLOG :: "config \<Rightarrow> string" where
  "RLOG C = RCS_ROOT C @ ''/rlog -zLT''"

definition VERSION :: string where
  "VERSION = ''1.1.1''"

definition XCS_ROOT :: "config \<Rightarrow> string" where
  "XCS_ROOT C = HOME_DIR C @ ''/.xcs''"

definition XATTR_KEY :: string where
  "XATTR_KEY = ''com.manion.rcs.path''"

definition CLAUDE_PROMPT :: string where
  "CLAUDE_PROMPT =
     ''You are a commit message generator. Analyze the following unified diff and write a concise, descriptive RCS commit message.''
     @ [nl, nl] @ ''Rules:'' @ [nl]
     @ ''- Write a single line summary (max 72 chars) describing WHAT changed'' @ [nl]
     @ ''- Focus on the functional change, not the mechanics (avoid '' @ quoted ''changed line X'' @ '')'' @ [nl]
     @ ''- Use imperative mood ('' @ quoted ''Add feature'' @ '' not '' @ quoted ''Added feature'' @ '')'' @ [nl]
     @ ''- Be specific but concise'' @ [nl]
     @ ''- If multiple changes, summarize the main theme'' @ [nl]
     @ ''- Output ONLY the commit message, nothing else'' @ [nl, nl]
     @ ''Diff:'' @ [nl]"

subsection \<open>Primitive calls\<close>

text \<open>\<open>prompt\<close>: the shared readline interface is created on first use; the answer is the
  user's.\<close>

definition prompt :: "world \<Rightarrow> string \<Rightarrow> state \<Rightarrow> string \<times> state" where
  "prompt W question s =
     (let s1 = (if rl s then s else (emit CreateInterface s)\<lparr>rl := True\<rparr>)
      in (ask W (trace s1) question, emit (Question question) s1))"

definition closeReadline :: "state \<Rightarrow> state" where
  "closeReadline s = (if rl s then (emit CloseInterface s)\<lparr>rl := False\<rparr> else s)"

text \<open>\<open>shell\<close>: \<open>spawnSync("bash", ["-c", cmd])\<close>; an exception gives code 1 and no
  output.\<close>

definition shell :: "world \<Rightarrow> string \<Rightarrow> bool \<Rightarrow> state \<Rightarrow> spawn_result \<times> state" where
  "shell W cmd silent s =
     (case run W (trace s) cmd of
        Inl e \<Rightarrow> \<lparr>status = Some 1, stdout = []\<rparr>
      | Inr r \<Rightarrow> r,
      emit (Shell cmd silent) s)"

text \<open>\<open>execSync\<close> returns the child's standard output, and throws (here \<open>Inl message\<close>)
  when the child cannot be run or ends with a status other than 0.\<close>

definition execSync :: "world \<Rightarrow> string \<Rightarrow> state \<Rightarrow> (string + string) \<times> state" where
  "execSync W cmd s =
     (case run W (trace s) cmd of
        Inl e \<Rightarrow> Inl e
      | Inr r \<Rightarrow> (if status r = Some 0 then Inr (stdout r) else Inl (''Command failed: '' @ cmd)),
      emit (ExecSync cmd) s)"

section \<open>generateCommitMessage\<close>

definition sanitize :: "string \<Rightarrow> string" where
  "sanitize message = take 200 (replaceAll nl CHR '' '' (replaceAll dq sq message))"

definition claude_argv :: "string \<Rightarrow> string list" where
  "claude_argv diff = [''--print'', ''--max-turns'', ''1'', CLAUDE_PROMPT @ diff]"

definition generateCommitMessage :: "config \<Rightarrow> world \<Rightarrow> string \<Rightarrow> state \<Rightarrow> string \<times> state" where
  "generateCommitMessage C W diff s =
     (if CLAUDE_CLI C = [] \<or> diff = [] \<or> trim diff = [] then (''-'', s)
      else
        (let s1 = emit (SpawnSync (CLAUDE_CLI C) (claude_argv diff)) s
         in case claude W (trace s) (claude_argv diff) of
              Inl e \<Rightarrow> (''-'', console_log (''Claude error: '' @ e) s1)
            | Inr result \<Rightarrow>
                (if status result = Some 0 \<and> stdout result \<noteq> [] then
                   (let message = trim (stdout result);
                        sanitized = sanitize message
                    in (if sanitized \<noteq> [] then sanitized else ''-'', s1))
                 else (''-'', s1))))"

definition underlineMessage :: "string \<Rightarrow> string" where
  "underlineMessage str = CHR 0x1B # ''[4m'' @ str @ CHR 0x1B # ''[0m''"

section \<open>getLockersName\<close>

text \<open>
  The command is a pipeline \<open>rlog ... 2>/dev/null | grep "locked by:"\<close>. The world runs
  its left side; \<open>grep\<close> is modelled: it selects the lines that contain the pattern (a
  fixed string here), prints each with a line feed, and ends with status 0 when a line
  was selected and 1 otherwise. The status of a pipeline is the status of its last
  command, so that of \<open>rlog\<close> is never seen.
\<close>

definition grep :: "string \<Rightarrow> string \<Rightarrow> spawn_result" where
  "grep pat input =
     (let sel = filter (sublist pat) (split_nl input)
      in \<lparr>status = Some (if sel = [] then 1 else 0), stdout = concat (map (\<lambda>l. l @ [nl]) sel)\<rparr>)"

definition execSync_grep :: "world \<Rightarrow> string \<Rightarrow> string \<Rightarrow> state \<Rightarrow> string option \<times> state" where
  "execSync_grep W cmd pat s =
     (case run W (trace s) cmd of
        Inl e \<Rightarrow> None
      | Inr r \<Rightarrow> (let g = grep pat (stdout r) in if status g = Some 0 then Some (stdout g) else None),
      emit (ExecSync (cmd @ '' | grep '' @ quoted pat)) s)"

text \<open>\<open>s.replace(/.*lit/, "")\<close>: the leftmost match is removed; at a start position the
  greedy \<open>.*\<close> runs to the end of the line and backs up to the last place where \<open>lit\<close>
  follows.\<close>

definition dot_run :: "string \<Rightarrow> nat" where
  "dot_run s = length (takeWhile (\<lambda>c. \<not> isLineTerminator c) s)"

definition match_dotstar_lit :: "string \<Rightarrow> string \<Rightarrow> nat option" where
  "match_dotstar_lit lit s =
     (case filter (\<lambda>j. prefix lit (drop j s)) (rev [0..<Suc (dot_run s)]) of
        [] \<Rightarrow> None
      | j # _ \<Rightarrow> Some (j + length lit))"

fun replace_dotstar_lit :: "string \<Rightarrow> string \<Rightarrow> string" where
  "replace_dotstar_lit lit [] = []"
| "replace_dotstar_lit lit (c # cs) =
     (case match_dotstar_lit lit (c # cs) of
        Some n \<Rightarrow> drop n (c # cs)
      | None \<Rightarrow> c # replace_dotstar_lit lit cs)"

text \<open>\<open>s.replace(/;.*/, "")\<close>: from the first semicolon to the end of its line.\<close>

fun replace_semi_dotstar :: "string \<Rightarrow> string" where
  "replace_semi_dotstar [] = []"
| "replace_semi_dotstar (c # cs) =
     (if c = CHR '';'' then dropWhile (\<lambda>c. \<not> isLineTerminator c) cs
      else c # replace_semi_dotstar cs)"

text \<open>\<open>a || b\<close> for a string-or-null \<open>a\<close>.\<close>

definition orElse :: "string option \<Rightarrow> string \<Rightarrow> string" where
  "orElse a b = (case a of None \<Rightarrow> b | Some p \<Rightarrow> if p \<noteq> [] then p else b)"

definition rlog_command :: "config \<Rightarrow> string \<Rightarrow> string option \<Rightarrow> string" where
  "rlog_command C fname rcsBasePath =
     (let baseName = basename C fname;
          rcsDir = orElse rcsBasePath (dirname C fname @ ''/'' @ RCS_DIR)
      in RLOG C @ '' '' @ quoted fname @ '' '' @ quoted (rcsDir @ ''/'' @ baseName @ '',v'')
           @ '' 2>/dev/null'')"

definition getLockersName ::
  "config \<Rightarrow> world \<Rightarrow> string \<Rightarrow> string option \<Rightarrow> state \<Rightarrow> string \<times> state" where
  "getLockersName C W fname rcsBasePath s =
     (let (res, s1) = execSync_grep W (rlog_command C fname rcsBasePath) ''locked by:'' s
      in case res of
           None \<Rightarrow> ([], s1)
         | Some result \<Rightarrow>
             (replace_semi_dotstar (replace_dotstar_lit ''locked by: '' (trim result)), s1))"

section \<open>checkinFile\<close>

record fileInfo =
  fname :: string
  rcsFile :: string
  baseName :: string
  originalMode :: int
  rcsBasePath :: "string option"

text \<open>\<open>runSyntaxCheck\<close> hands the file to ESLint, an external collaborator; the world says
  whether that call returns (\<open>True\<close>) or throws.\<close>

definition runSyntaxCheck :: "world \<Rightarrow> string \<Rightarrow> state \<Rightarrow> unit outcome \<times> state" where
  "runSyntaxCheck W f s =
     (if \<not> enableSyntaxCheck s then (Returned (), console_log [] s)
      else (if lint W (trace s) f then Returned () else Threw ''ESLint'', emit (ESLint f) s))"

text \<open>The commit message of a checkin: the \<open>try\<close> block of \<open>checkinFile\<close>.\<close>

definition checkinMessage :: "config \<Rightarrow> world \<Rightarrow> string \<Rightarrow> state \<Rightarrow> string \<times> state" where
  "checkinMessage C W diffTmpFile s =
     (let (r, s1) = execSync W (''cat '' @ quoted diffTmpFile) s
      in case r of
           Inl e \<Rightarrow> (''-'', s1)
         | Inr diffContent \<Rightarrow>
             (let (m, s2) = (if trim diffContent \<noteq> [] then generateCommitMessage C W diffContent s1
                             else (''-'', s1))
              in (m, emit (UnlinkSync diffTmpFile) s2)))"

definition checkinFile :: "config \<Rightarrow> world \<Rightarrow> fileInfo \<Rightarrow> state \<Rightarrow> unit outcome \<times> state" where
  "checkinFile C W fileInfo s =
     (let diffTmpFile = ''/tmp/'' @ pid C @ ''.'' @ basename C (fname fileInfo) @ ''.diff'';
          (d, s1) = shell W (RCS_DIFF C @ '' '' @ quoted (fname fileInfo) @ '' '' @ quoted (rcsFile fileInfo)
                              @ '' >'' @ diffTmpFile @ '' 2>/dev/null'') True s;
          (commitMessage, s2) = checkinMessage C W diffTmpFile s1;
          s3 = (if commitMessage \<noteq> ''-''
                then console_log (underlineMessage ''Commit message:'' @ [nl] @ commitMessage @ [nl]) s2
                else s2);
          (c, s4) = shell W (RCS_CHECKIN_BASE C @ '' -m'' @ quoted commitMessage @ '' ''
                              @ quoted (fname fileInfo) @ '' '' @ quoted (rcsFile fileInfo)) False s3;
          (lname, s5) = getLockersName C W (fname fileInfo) (rcsBasePath fileInfo) s4;
          s6 = (if lname \<noteq> [] then
                  (let (u, t) = shell W (RCS_UNLOCK C @ '' '' @ quoted (fname fileInfo) @ '' ''
                                          @ quoted (rcsFile fileInfo)) False s5
                   in console_log (''File '' @ fname fileInfo @ '' has been unlocked.'') t)
                else s5);
          s7 = emit (ChmodSync (fname fileInfo) (originalMode fileInfo)) s6
      in runSyntaxCheck W (fname fileInfo) s7)"

section \<open>Directory metadata\<close>

definition xattr_get_command :: "config \<Rightarrow> string \<Rightarrow> string" where
  "xattr_get_command C dir =
     (if IS_MACOS C then ''xattr -p '' @ XATTR_KEY @ '' '' @ quoted dir @ '' 2>/dev/null''
      else ''getfattr -n user.'' @ XATTR_KEY @ '' --only-values '' @ quoted dir @ '' 2>/dev/null'')"

definition xattr_set_command :: "config \<Rightarrow> string \<Rightarrow> string \<Rightarrow> string" where
  "xattr_set_command C dir relativePath =
     (if IS_MACOS C then ''xattr -w '' @ XATTR_KEY @ '' '' @ quoted relativePath @ '' '' @ quoted dir
      else ''setfattr -n user.'' @ XATTR_KEY @ '' -v '' @ quoted relativePath @ '' '' @ quoted dir)"

definition xattr_remove_command :: "config \<Rightarrow> string \<Rightarrow> string" where
  "xattr_remove_command C dir =
     (if IS_MACOS C then ''xattr -d '' @ XATTR_KEY @ '' '' @ quoted dir @ '' 2>/dev/null''
      else ''setfattr -x user.'' @ XATTR_KEY @ '' '' @ quoted dir @ '' 2>/dev/null'')"

text \<open>\<open>getXattrPath\<close>: the trimmed value, or \<open>null\<close> when it is empty or the command fails.\<close>

definition getXattrPath :: "config \<Rightarrow> world \<Rightarrow> string \<Rightarrow> state \<Rightarrow> string option \<times> state" where
  "getXattrPath C W dir s =
     (let (r, s1) = execSync W (xattr_get_command C dir) s
      in (case r of
            Inl e \<Rightarrow> None
          | Inr result \<Rightarrow> if trim result \<noteq> [] then Some (trim result) else None,
          s1))"

text \<open>\<open>setXattrPath\<close> and \<open>removeXattr\<close> run their command and ignore how it ends.\<close>

definition setXattrPath :: "config \<Rightarrow> world \<Rightarrow> string \<Rightarrow> string \<Rightarrow> state \<Rightarrow> state" where
  "setXattrPath C W dir relativePath s = snd (execSync W (xattr_set_command C dir relativePath) s)"

definition removeXattr :: "config \<Rightarrow> world \<Rightarrow> string \<Rightarrow> state \<Rightarrow> state" where
  "removeXattr C W dir s = snd (execSync W (xattr_remove_command C dir) s)"

section \<open>Store resolution\<close>

text \<open>The loop of \<open>findXcsBundleRoot\<close>. Whether it ends depends on \<open>dirname\<close>; \<open>None\<close> is
  the loop that never ends.\<close>

partial_function (option) walkUp :: "(string \<Rightarrow> string) \<Rightarrow> string \<Rightarrow> string \<Rightarrow> string option option" where
  "walkUp dn home current =
     (if current \<noteq> ''/'' \<and> current \<noteq> home then
        (if endsWith current ''.xcs'' then Some (Some current)
         else walkUp dn home (dn current))
      else Some None)"

declare walkUp.simps [code]

definition walk :: "config \<Rightarrow> string \<Rightarrow> string option outcome" where
  "walk C current =
     (case walkUp (dirname C) (HOME_DIR C) current of None \<Rightarrow> Diverged | Some r \<Rightarrow> Returned r)"

definition findXcsBundleRoot ::
  "config \<Rightarrow> world \<Rightarrow> string \<Rightarrow> state \<Rightarrow> string option outcome \<times> state" where
  "findXcsBundleRoot C W filePath s =
     (let current = resolve C filePath;
          s1 = emit (ExistsSync current) s
      in if fs_exists W (trace s) current then
           (case fs_stat W (trace s1) current of
              Inl e \<Rightarrow> (Threw e, emit (StatSync current) s1)
            | Inr st \<Rightarrow>
                (walk C (if isFile st then dirname C current else current),
                 emit (StatSync current) s1))
         else (walk C current, s1))"

text \<open>\<open>hint.replace(/^\/Volumes\/[^/]+/, "")\<close> on a string that starts with
  \<open>/Volumes/\<close>.\<close>

definition strip_volume :: "string \<Rightarrow> string" where
  "strip_volume hint =
     (let rest = drop (length ''/Volumes/'') hint;
          name = takeWhile (\<lambda>c. c \<noteq> CHR ''/'') rest
      in if name \<noteq> [] then drop (length name) rest else hint)"

text \<open>\<open>.replace(/^\/+/, "").replace(/\/+$/, "")\<close>.\<close>

definition clean_slashes :: "string \<Rightarrow> string" where
  "clean_slashes p =
     rev (dropWhile (\<lambda>c. c = CHR ''/'') (rev (dropWhile (\<lambda>c. c = CHR ''/'') p)))"

definition getPathHint :: "config \<Rightarrow> string \<Rightarrow> string" where
  "getPathHint C dir =
     clean_slashes
       (if startsWith dir (HOME_DIR C) then drop (length (HOME_DIR C)) dir
        else if startsWith dir ''/Volumes/'' then strip_volume dir
        else dir)"

record pathInfo =
  relative :: string
  full :: string

definition store_question :: "config \<Rightarrow> string \<Rightarrow> string" where
  "store_question C localDir = ''  hint: '' @ getPathHint C localDir @ [nl] @ ''> ''"

definition pathInfo_of :: "config \<Rightarrow> string \<Rightarrow> string \<Rightarrow> pathInfo" where
  "pathInfo_of C localDir answer =
     (let trimmed = trim answer
      in if trimmed = [] \<or> trimmed = ''.'' then
           \<lparr>relative = ''.'', full = localDir @ ''/'' @ RCS_DIR\<rparr>
         else
           (let relativePath = clean_slashes trimmed
            in \<lparr>relative = relativePath, full = XCS_ROOT C @ ''/'' @ relativePath\<rparr>))"

definition promptForRcsPath :: "config \<Rightarrow> world \<Rightarrow> string \<Rightarrow> state \<Rightarrow> pathInfo \<times> state" where
  "promptForRcsPath C W localDir s =
     (let s1 = console_log ''No RCS directory. Enter remote path or <enter>'' s;
          (answer, s2) = prompt W (store_question C localDir) s1
      in (pathInfo_of C localDir answer, s2))"

text \<open>The second half of \<open>resolveRcsPath\<close>, from "No xattr or invalid - prompt user".\<close>

definition resolveByPrompt ::
  "config \<Rightarrow> world \<Rightarrow> string \<Rightarrow> string \<Rightarrow> state \<Rightarrow> string option outcome \<times> state" where
  "resolveByPrompt C W xattrDir localDir s =
     (let (info, s1) = promptForRcsPath C W localDir s;
          s2 = closeReadline s1;
          s3 = emit (ExistsSync (full info)) s2
      in if \<not> fs_exists W (trace s2) (full info) then
           (case fs_mkdir W (trace s3) (full info) of
              Some e \<Rightarrow>
                (Returned None,
                 console_log (''Error creating directory '' @ full info @ '': '' @ e)
                   (emit (MkdirSync (full info)) s3))
            | None \<Rightarrow>
                (Returned (Some (full info)),
                 setXattrPath C W xattrDir (relative info) (emit (MkdirSync (full info)) s3)))
         else (Returned (Some (full info)), setXattrPath C W xattrDir (relative info) s3))"

definition hintPath :: "config \<Rightarrow> string \<Rightarrow> string \<Rightarrow> string" where
  "hintPath C localDir xattrValue =
     (if xattrValue = ''.'' then localDir @ ''/'' @ RCS_DIR else XCS_ROOT C @ ''/'' @ xattrValue)"

definition resolveRcsPath ::
  "config \<Rightarrow> world \<Rightarrow> string \<Rightarrow> string \<Rightarrow> state \<Rightarrow> string option outcome \<times> state" where
  "resolveRcsPath C W filePath fileDir s =
     (case findXcsBundleRoot C W filePath s of
        (Diverged, s1) \<Rightarrow> (Diverged, s1)
      | (Threw e, s1) \<Rightarrow> (Threw e, s1)
      | (Returned xcsRoot, s1) \<Rightarrow>
          (let xattrDir = orElse xcsRoot fileDir;
               localDir = orElse xcsRoot fileDir;
               (xattrValue, s2) = getXattrPath C W xattrDir s1
           in case xattrValue of
                None \<Rightarrow> resolveByPrompt C W xattrDir localDir s2
              | Some v \<Rightarrow>
                  (if v \<noteq> [] then
                     (let fullPath = hintPath C localDir v;
                          s3 = emit (ExistsSync fullPath) s2
                      in if fs_exists W (trace s2) fullPath then (Returned (Some fullPath), s3)
                         else resolveByPrompt C W xattrDir localDir (removeXattr C W xattrDir s3))
                   else resolveByPrompt C W xattrDir localDir s2)))"

section \<open>checkoutFile\<close>

text \<open>
  \<open>checkoutFile\<close> is one long function; it is cut here at its own comments into steps. A
  step returns \<open>None\<close> where the source has \<open>return null\<close>, and \<open>andThen\<close> runs the next
  step otherwise.
\<close>

definition andThen ::
  "'a option outcome \<times> state \<Rightarrow> ('a \<Rightarrow> state \<Rightarrow> 'b option outcome \<times> state)
     \<Rightarrow> 'b option outcome \<times> state" where
  "andThen r k =
     (case r of
        (Diverged, s) \<Rightarrow> (Diverged, s)
      | (Threw e, s) \<Rightarrow> (Threw e, s)
      | (Returned None, s) \<Rightarrow> (Returned None, s)
      | (Returned (Some x), s) \<Rightarrow> k x s)"

text \<open>"Handle symbolic links": gives the file name, \<open>dirName\<close> and \<open>baseName\<close> to go on
  with.\<close>

definition handleSymlink ::
  "config \<Rightarrow> world \<Rightarrow> string \<Rightarrow> state \<Rightarrow> (string \<times> string \<times> string) option outcome \<times> state" where
  "handleSymlink C W f s =
     (let keep = Returned (Some (f, dirname C (resolve C f), basename C f));
          s1 = emit (ExistsSync f) s
      in if fs_exists W (trace s) f then
           (case fs_lstat W (trace s1) f of
              Inl e \<Rightarrow> (keep, console_log (''Warning: '' @ e) (emit (LstatSync f) s1))
            | Inr lstats \<Rightarrow>
                (let s2 = emit (LstatSync f) s1
                 in if isSymbolicLink lstats then
                      (case fs_realpath W (trace s2) f of
                         Inl e \<Rightarrow> (keep, console_log (''Warning: '' @ e) (emit (RealpathSync f) s2))
                       | Inr realPath \<Rightarrow>
                           (let s3 = console_log (f @ '' is a symbolic link to '' @ realPath)
                                       (emit (RealpathSync f) s2);
                                (ans, s4) = prompt W ''Edit the linked file? [Y/n] '' s3
                            in if test_char_i CHR ''n'' CHR ''N'' ans then (Returned None, s4)
                               else (Returned (Some (realPath, dirname C realPath, basename C realPath)),
                                     s4)))
                    else (keep, s2)))
         else (keep, s1))"

text \<open>"Ensure file exists".\<close>

definition ensureFileExists :: "world \<Rightarrow> string \<Rightarrow> state \<Rightarrow> unit option outcome \<times> state" where
  "ensureFileExists W f s =
     (let s1 = emit (ExistsSync f) s
      in if \<not> fs_exists W (trace s) f then
           (case fs_write W (trace s1) f of
              Some e \<Rightarrow>
                (Returned None,
                 console_log (''Cannot create '' @ f @ '': '' @ e) (emit (WriteFileSync f []) s1))
            | None \<Rightarrow> (Returned (Some ()), emit (WriteFileSync f []) s1))
         else (Returned (Some ()), s1))"

text \<open>"Check for hard links and capture original permissions": gives \<open>originalMode\<close>.\<close>

definition checkHardLinks :: "world \<Rightarrow> string \<Rightarrow> state \<Rightarrow> int option outcome \<times> state" where
  "checkHardLinks W f s =
     (let s1 = emit (StatSync f) s
      in case fs_stat W (trace s) f of
           Inl e \<Rightarrow> (Threw e, s1)
         | Inr st \<Rightarrow>
             (if nlink st > 1 then
                (Returned None,
                 console_log ''It is best to delete all names except one before continuing.''
                   (console_log (''There are '' @ dec (nlink st) @ '' links to this file.'') s1))
              else (Returned (Some (mode st)), s1)))"

text \<open>"Determine RCS path - check for existing local .rcs first": gives \<open>rcsPath\<close> and
  \<open>rcsBasePath\<close>.\<close>

definition determineRcsPath ::
  "config \<Rightarrow> world \<Rightarrow> string \<Rightarrow> string \<Rightarrow> state
     \<Rightarrow> (string \<times> string option) option outcome \<times> state" where
  "determineRcsPath C W f dirName s =
     (let fullPath = resolve C f;
          localRcsPath = dirName @ ''/'' @ RCS_DIR;
          s1 = emit (ExistsSync localRcsPath) s
      in if fs_exists W (trace s) localRcsPath then (Returned (Some (localRcsPath, None)), s1)
         else
           (case resolveRcsPath C W fullPath dirName s1 of
              (Diverged, s2) \<Rightarrow> (Diverged, s2)
            | (Threw e, s2) \<Rightarrow> (Threw e, s2)
            | (Returned None, s2) \<Rightarrow> (Returned None, s2)
            | (Returned (Some p), s2) \<Rightarrow>
                (if p = [] then (Returned None, s2) else (Returned (Some (p, Some p)), s2))))"

text \<open>"Ensure RCS directory exists".\<close>

definition ensureRcsDirectory :: "world \<Rightarrow> string \<Rightarrow> state \<Rightarrow> unit option outcome \<times> state" where
  "ensureRcsDirectory W rcsPath s =
     (let s1 = emit (ExistsSync rcsPath) s
      in if \<not> fs_exists W (trace s) rcsPath then
           (case fs_mkdir W (trace s1) rcsPath of
              Some e \<Rightarrow>
                (Returned None,
                 console_log (''Permission denied creating directory '' @ rcsPath @ '': '' @ e)
                   (emit (MkdirSync rcsPath) s1))
            | None \<Rightarrow> (Returned (Some ()), emit (MkdirSync rcsPath) s1))
         else (Returned (Some ()), s1))"

text \<open>"Check in if no RCS entry exists".\<close>

definition initialCheckin ::
  "config \<Rightarrow> world \<Rightarrow> string \<Rightarrow> string \<Rightarrow> state \<Rightarrow> unit option outcome \<times> state" where
  "initialCheckin C W f rcsFile' s =
     (let s1 = emit (ExistsSync rcsFile') s
      in if \<not> fs_exists W (trace s) rcsFile' then
           (let s2 = console_log (nl # ''NOTE: '' @ f @ '' has never been checked into RCS'') s1
            in (Returned (Some ()),
                snd (shell W (RCS_CHECKIN_BASE C @ '' -m'' @ quoted ''Initial checkin'' @ '' ''
                               @ quoted f @ '' '' @ quoted rcsFile') False s2)))
         else (Returned (Some ()), s1))"

text \<open>"Check if file is locked by someone else".\<close>

definition checkLocked ::
  "config \<Rightarrow> world \<Rightarrow> string \<Rightarrow> string \<Rightarrow> string option \<Rightarrow> state \<Rightarrow> unit option outcome \<times> state" where
  "checkLocked C W f rcsFile' rcsBasePath' s =
     (let (lname, s1) = getLockersName C W f rcsBasePath' s
      in if lname \<noteq> [] then
           (let s2 = console_log (''ERROR: '' @ quoted f @ '' locked (checked out) by: '' @ lname) s1;
                s3 = console_log
                       (''       You can force an unlock, but be sure they'' @ [sq] @ ''re not editing it.'') s2;
                (ans, s4) = prompt W (nl # ''Do you want to unlock the file? '') s3
            in if \<not> test_char_i CHR ''y'' CHR ''Y'' ans then (Returned None, s4)
               else (Returned (Some ()),
                     snd (shell W (RCS_UNLOCK C @ '' '' @ quoted f @ '' '' @ quoted rcsFile') False s4)))
         else (Returned (Some ()), s1))"

text \<open>"Check for uncommitted changes": gives \<open>originalMode\<close>, captured again after a sync
  checkin.\<close>

definition changedBanner :: "string \<Rightarrow> string \<Rightarrow> world \<Rightarrow> state \<Rightarrow> state" where
  "changedBanner f tmpFile W s =
     (let s1 = console_log (nl # ''ERROR: File has been changed since last check in.'') s;
          s2 = console_log (''       Someone edited '' @ quoted f
                             @ '' without checking in their changes.'' @ [nl]) s1;
          s3 = console_log ''       Here are the changes:'' s2;
          s4 = snd (shell W (''cat '' @ tmpFile) False s3);
          s5 = emit (UnlinkSync tmpFile) s4;
          s6 = console_log (nl # ''  '' @ [sq] @ ''<'' @ [sq]
                             @ '' = RCS has information that the file does not.'') s5;
          s7 = console_log (''  '' @ [sq] @ ''>'' @ [sq]
                             @ '' = The file has information that RCS does not.'' @ [nl]) s6;
          s8 = console_log ''Options:'' s7;
          s9 = console_log ''     1. Check the changes into RCS'' s8;
          s10 = console_log ''     2. Exit'' s9
      in console_log ''     3. Ignore changes and continue (DANGEROUS)'' s10)"

definition resolveDrift ::
  "config \<Rightarrow> world \<Rightarrow> string \<Rightarrow> string \<Rightarrow> int \<Rightarrow> string \<Rightarrow> state \<Rightarrow> int option outcome \<times> state" where
  "resolveDrift C W f rcsFile' originalMode' ans s =
     (if test_char CHR ''1'' ans then
        (let s1 = console_log [] s;
             s2 = snd (shell W (RCS_LOCK C @ '' '' @ quoted f @ '' '' @ quoted rcsFile') False s1);
             s3 = snd (shell W (RCS_CHECKIN_BASE C @ '' -m'' @ quoted ''Sync uncommitted changes''
                                 @ '' '' @ quoted f @ '' '' @ quoted rcsFile') False s2);
             s4 = emit (StatSync f) s3
         in case fs_stat W (trace s3) f of
              Inl e \<Rightarrow> (Threw e, s4)
            | Inr newStats \<Rightarrow> (Returned (Some (mode newStats)), console_log [] s4))
      else if \<not> test_char CHR ''3'' ans then (Returned None, console_log ''No changes made'' s)
      else (Returned (Some originalMode'), s))"

definition checkUncommitted ::
  "config \<Rightarrow> world \<Rightarrow> string \<Rightarrow> string \<Rightarrow> int \<Rightarrow> state \<Rightarrow> int option outcome \<times> state" where
  "checkUncommitted C W f rcsFile' originalMode' s =
     (let tmpFile = ''/tmp/'' @ pid C @ ''.vic'';
          (diffResult, s1) = shell W (RCS_DIFF C @ '' '' @ quoted f @ '' '' @ quoted rcsFile'
                                       @ '' >'' @ tmpFile @ '' 2>/dev/null'') True s
      in if status diffResult \<noteq> Some 0 then
           (let (ans, s2) = prompt W ''---> '' (changedBanner f tmpFile W s1)
            in resolveDrift C W f rcsFile' originalMode' ans s2)
         else (Returned (Some originalMode'), s1))"

text \<open>The three \<open>try\<close> blocks before the checkout: the temporary file is removed and the
  write bits are taken from the store entry and from the working file. Exceptions are
  ignored there.\<close>

definition removeWrite :: "config \<Rightarrow> string \<Rightarrow> string \<Rightarrow> int \<Rightarrow> state \<Rightarrow> state" where
  "removeWrite C f rcsFile' originalMode' s =
     (let readOnlyMode = originalMode' AND NOT 146
      in emit (ChmodSync f readOnlyMode)
           (emit (ChmodSync rcsFile' readOnlyMode)
              (emit (UnlinkSync (''/tmp/'' @ pid C @ ''.vic'')) s)))"

text \<open>"Checkout", and the lock holder asked again.\<close>

definition checkout ::
  "config \<Rightarrow> world \<Rightarrow> fileInfo \<Rightarrow> state \<Rightarrow> fileInfo option outcome \<times> state" where
  "checkout C W info s =
     (let (coResult, s1) = shell W (RCS_CHECKOUT C @ '' '' @ quoted (fname info) @ '' ''
                                     @ quoted (rcsFile info)) False s
      in if status coResult \<noteq> Some 0 then
           (Returned None, console_log (''Checkout failed for '' @ fname info) s1)
         else
           (let (lname, s2) = getLockersName C W (fname info) (rcsBasePath info) s1
            in if lname = [] then
                 (Returned None, console_log (''Could not lock '' @ fname info @ ''.'') s2)
               else (Returned (Some info), console_log [] s2)))"

text \<open>The steps from "Ensure RCS directory exists" to the \<open>try\<close> blocks before the
  checkout, with the store path known: gives the \<open>fileInfo\<close> that a successful checkout
  returns.\<close>

definition afterStore ::
  "config \<Rightarrow> world \<Rightarrow> string \<Rightarrow> string \<Rightarrow> int \<Rightarrow> string \<times> string option \<Rightarrow> state
     \<Rightarrow> fileInfo option outcome \<times> state" where
  "afterStore C W f baseName' mode0 =
     (\<lambda>(rcsPath, rcsBasePath').
     (\<lambda>s. andThen (ensureRcsDirectory W rcsPath s) (\<lambda>_.
     (\<lambda>s. let rcsFile' = rcsPath @ ''/'' @ baseName' @ '',v'' in
          andThen (initialCheckin C W f rcsFile' s) (\<lambda>_.
     (\<lambda>s. andThen (checkLocked C W f rcsFile' rcsBasePath' s) (\<lambda>_.
     (\<lambda>s. andThen (checkUncommitted C W f rcsFile' mode0 s) (\<lambda>originalMode'.
     (\<lambda>s. (Returned (Some \<lparr>fname = f, rcsFile = rcsFile', baseName = baseName',
                            originalMode = originalMode', rcsBasePath = rcsBasePath'\<rparr>),
           removeWrite C f rcsFile' originalMode' s)))))))))))"

text \<open>Everything before the checkout command.\<close>

definition prepare ::
  "config \<Rightarrow> world \<Rightarrow> string \<Rightarrow> state \<Rightarrow> fileInfo option outcome \<times> state" where
  "prepare C W f0 s =
     andThen (handleSymlink C W f0 s) (\<lambda>(f, dirName, baseName').
     (\<lambda>s. andThen (ensureFileExists W f s) (\<lambda>_.
     (\<lambda>s. andThen (checkHardLinks W f s) (\<lambda>mode0.
     (\<lambda>s. andThen (determineRcsPath C W f dirName s) (afterStore C W f baseName' mode0)))))))"

definition checkoutFile ::
  "config \<Rightarrow> world \<Rightarrow> string \<Rightarrow> state \<Rightarrow> fileInfo option outcome \<times> state" where
  "checkoutFile C W f0 s = andThen (prepare C W f0 s) (checkout C W)"

section \<open>showCommits and showDiff\<close>

text \<open>"Determine RCS file location": the same lines open \<open>showCommits\<close> and \<open>showDiff\<close>.
  \<open>None\<close> is the early \<open>return\<close> after "No RCS history found".\<close>

definition locateRcsFile ::
  "config \<Rightarrow> world \<Rightarrow> string \<Rightarrow> state \<Rightarrow> string option outcome \<times> state" where
  "locateRcsFile C W f s =
     (let dirName = dirname C (resolve C f);
          baseName' = basename C f;
          localRcsPath = dirName @ ''/'' @ RCS_DIR;
          none = (\<lambda>t. (Returned None, console_log (''No RCS history found for '' @ f) t));
          s1 = emit (ExistsSync localRcsPath) s
      in andThen
           (if fs_exists W (trace s) localRcsPath then
              (Returned (Some (localRcsPath @ ''/'' @ baseName' @ '',v'')), s1)
            else
              (case findXcsBundleRoot C W (resolve C f) s1 of
                 (Diverged, s2) \<Rightarrow> (Diverged, s2)
               | (Threw e, s2) \<Rightarrow> (Threw e, s2)
               | (Returned xcsRoot, s2) \<Rightarrow>
                   (let xattrDir = orElse xcsRoot dirName;
                        (xattrValue, s3) = getXattrPath C W xattrDir s2
                    in case xattrValue of
                         None \<Rightarrow> none s3
                       | Some v \<Rightarrow>
                           (if v \<noteq> [] \<and> v \<noteq> ''.'' then
                              (Returned (Some (XCS_ROOT C @ ''/'' @ v @ ''/'' @ baseName' @ '',v'')), s3)
                            else if v = ''.'' then
                              (Returned (Some (orElse xcsRoot dirName @ ''/'' @ RCS_DIR @ ''/''
                                                @ baseName' @ '',v'')), s3)
                            else none s3))))
           (\<lambda>rcsFile' t.
              if \<not> fs_exists W (trace t) rcsFile' then none (emit (ExistsSync rcsFile') t)
              else (Returned (Some rcsFile'), emit (ExistsSync rcsFile') t)))"

record entry =
  rev_id :: string
  date :: string
  msg :: string

text \<open>The variables of the parsing loop.\<close>

record parser =
  inRevision :: bool
  currentRev :: string
  currentDate :: string
  currentMsg :: "string list"
  entries :: "entry list"

definition parser0 :: parser where
  "parser0 = \<lparr>inRevision = False, currentRev = [], currentDate = [], currentMsg = [], entries = []\<rparr>"

text \<open>\<open>if (currentRev && currentMsg.length) entries.push(...)\<close>.\<close>

definition push_entry :: "parser \<Rightarrow> parser" where
  "push_entry p =
     (if currentRev p \<noteq> [] \<and> currentMsg p \<noteq> [] then
        p\<lparr>entries := entries p @
              [\<lparr>rev_id = currentRev p, date = currentDate p, msg = trim (join_sp (currentMsg p))\<rparr>]\<rparr>
      else p)"

text \<open>\<open>line.match(/date: ([^;]+);/)\<close>: the group of the leftmost match.\<close>

fun dateMatch :: "string \<Rightarrow> string option" where
  "dateMatch [] = None"
| "dateMatch (c # cs) =
     (if prefix ''date: '' (c # cs) then
        (let rest = drop (length ''date: '') (c # cs);
             grp = takeWhile (\<lambda>x. x \<noteq> CHR '';'') rest
         in if grp \<noteq> [] \<and> drop (length grp) rest \<noteq> [] then Some grp else dateMatch cs)
      else dateMatch cs)"

text \<open>One turn of \<open>for (const line of lines)\<close>. In the first branch the line starts with
  \<open>revision \<close>, so \<open>line.replace("revision ", "")\<close> removes these nine characters.\<close>

definition parse_line :: "parser \<Rightarrow> string \<Rightarrow> parser" where
  "parse_line p line =
     (if startsWith line ''revision '' then
        (push_entry p)\<lparr>currentRev := trim (drop (length ''revision '') line),
                       currentMsg := [], inRevision := True\<rparr>
      else if inRevision p \<and> startsWith line ''date: '' then
        (case dateMatch line of Some d \<Rightarrow> p\<lparr>currentDate := trim d\<rparr> | None \<Rightarrow> p)
      else if inRevision p \<and> startsWith line ''----------------------------'' then
        (push_entry p)\<lparr>currentRev := [], currentMsg := [], inRevision := False\<rparr>
      else if inRevision p \<and> startsWith line ''==='' then push_entry p
      else if inRevision p \<and> line \<noteq> [] \<and> \<not> startsWith line ''date:''
              \<and> \<not> startsWith line ''branches:'' then
        p\<lparr>currentMsg := currentMsg p @ [line]\<rparr>
      else p)"

definition parseLog :: "string \<Rightarrow> entry list" where
  "parseLog result = entries (foldl parse_line parser0 (split_nl result))"

text \<open>The entries as they are printed: \<open>entries.reverse()\<close>.\<close>

definition history :: "string \<Rightarrow> entry list" where
  "history result = rev (parseLog result)"

definition entry_line :: "entry \<Rightarrow> string" where
  "entry_line e = ''  '' @ rev_id e @ ''  '' @ date e @ ''  '' @ msg e"

definition showCommits :: "config \<Rightarrow> world \<Rightarrow> string \<Rightarrow> state \<Rightarrow> unit outcome \<times> state" where
  "showCommits C W f s =
     (case locateRcsFile C W f s of
        (Diverged, s1) \<Rightarrow> (Diverged, s1)
      | (Threw e, s1) \<Rightarrow> (Threw e, s1)
      | (Returned None, s1) \<Rightarrow> (Returned (), s1)
      | (Returned (Some rcsFile'), s1) \<Rightarrow>
          (let (r, s2) = execSync W (RLOG C @ '' '' @ quoted rcsFile' @ '' 2>/dev/null'') s1
           in case r of
                Inl e \<Rightarrow> (Returned (), console_log (''Error reading RCS history: '' @ e) s2)
              | Inr result \<Rightarrow>
                  (Returned (),
                   console_log []
                     (foldl (\<lambda>t e. console_log (entry_line e) t)
                        (console_log (nl # underlineMessage f @ [nl]) s2)
                        (history result)))))"

definition showDiff ::
  "config \<Rightarrow> world \<Rightarrow> string \<Rightarrow> string \<Rightarrow> string option \<Rightarrow> state \<Rightarrow> unit outcome \<times> state" where
  "showDiff C W f rev1 rev2 s =
     (case locateRcsFile C W f s of
        (Diverged, s1) \<Rightarrow> (Diverged, s1)
      | (Threw e, s1) \<Rightarrow> (Threw e, s1)
      | (Returned None, s1) \<Rightarrow> (Returned (), s1)
      | (Returned (Some rcsFile'), s1) \<Rightarrow>
          (let second = (case rev2 of None \<Rightarrow> False | Some r \<Rightarrow> r \<noteq> []);
               diffCmd = (if second then
                            RCS_DIFF C @ '' -r'' @ rev1 @ '' -r'' @ the rev2 @ '' '' @ quoted f
                              @ '' '' @ quoted rcsFile'
                          else RCS_DIFF C @ '' -r'' @ rev1 @ '' '' @ quoted f @ '' '' @ quoted rcsFile');
               s2 = console_log (nl # underlineMessage f @ '' ('' @ rev1 @ '' vs ''
                                  @ orElse rev2 ''current'' @ '')'' @ [nl]) s1
           in (Returned (), snd (shell W diffCmd False s2))))"

section \<open>main\<close>

definition isDigit :: "char \<Rightarrow> bool" where
  "isDigit c \<longleftrightarrow> 48 \<le> (of_char c :: nat) \<and> (of_char c :: nat) \<le> 57"

definition digit_val :: "char \<Rightarrow> nat" where
  "digit_val c = of_char c - 48"

text \<open>
  \<open>parseInt(x, 10)\<close>: white space is skipped, a sign is read, and the longest run of
  decimal digits is the value; no digit gives \<open>NaN\<close> (here \<open>None\<close>), and so does \<open>undefined\<close>.
  The value is kept exact. The source holds it in a double; rounding to a double is
  monotone and exact up to \<open>2^53\<close>, so a comparison with an array length gives the same.
\<close>

definition parseInt :: "string option \<Rightarrow> int option" where
  "parseInt x =
     (case x of
        None \<Rightarrow> None
      | Some str \<Rightarrow>
          (let t = dropWhile isWhiteSpace str;
               neg = (t \<noteq> [] \<and> hd t = CHR ''-'');
               u = (if t \<noteq> [] \<and> (hd t = CHR ''-'' \<or> hd t = CHR ''+'') then tl t else t);
               z = takeWhile isDigit u
           in if z = [] then None
              else Some ((if neg then - 1 else 1) * int (foldl (\<lambda>a c. 10 * a + digit_val c) 0 z))))"

text \<open>\<open>parseInt(args.shift(), 10) || 3\<close>: \<open>NaN\<close> and 0 are falsy.\<close>

definition maxFiles_of :: "string option \<Rightarrow> int" where
  "maxFiles_of x = (case parseInt x of None \<Rightarrow> 3 | Some v \<Rightarrow> if v = 0 then 3 else v)"

text \<open>\<open>/^\d+\.\d+$/.test(s)\<close>.\<close>

definition revPattern :: "string \<Rightarrow> bool" where
  "revPattern r =
     (let a = takeWhile isDigit r;
          b = drop (length a) r
      in a \<noteq> [] \<and> b \<noteq> [] \<and> hd b = CHR ''.'' \<and> tl b \<noteq> [] \<and> list_all isDigit (tl b))"

text \<open>How the process ends: \<open>process.exit(code)\<close>, \<open>main\<close> returns, an exception reaches
  \<open>main().catch\<close>, or it never ends.\<close>

datatype ending = Exit nat | Return | Uncaught string | NoEnd

definition ending_of :: "'a outcome \<Rightarrow> ending" where
  "ending_of r = (case r of Diverged \<Rightarrow> NoEnd | Threw e \<Rightarrow> Uncaught e | Returned _ \<Rightarrow> Return)"

definition tooMany :: "nat \<Rightarrow> int \<Rightarrow> string" where
  "tooMany n maxFiles = ''Too many files ('' @ dec n @ ''). Maximum is '' @ dec_int maxFiles @ ''.''"

text \<open>\<open>for (const fname of args) await showCommits(fname)\<close>.\<close>

fun showAll :: "config \<Rightarrow> world \<Rightarrow> string list \<Rightarrow> state \<Rightarrow> unit outcome \<times> state" where
  "showAll C W [] s = (Returned (), s)"
| "showAll C W (f # fs) s =
     (case showCommits C W f s of
        (Returned _, s1) \<Rightarrow> showAll C W fs s1
      | (Threw e, s1) \<Rightarrow> (Threw e, s1)
      | (Diverged, s1) \<Rightarrow> (Diverged, s1))"

text \<open>"Checkout all files first": the files whose checkout gave \<open>null\<close> are left out.\<close>

fun checkoutAll :: "config \<Rightarrow> world \<Rightarrow> string list \<Rightarrow> state \<Rightarrow> fileInfo list outcome \<times> state" where
  "checkoutAll C W [] s = (Returned [], s)"
| "checkoutAll C W (f # fs) s =
     (case checkoutFile C W f s of
        (Diverged, s1) \<Rightarrow> (Diverged, s1)
      | (Threw e, s1) \<Rightarrow> (Threw e, s1)
      | (Returned r, s1) \<Rightarrow>
          (case checkoutAll C W fs s1 of
             (Returned infos, s2) \<Rightarrow>
               (Returned ((case r of None \<Rightarrow> [] | Some info \<Rightarrow> [info]) @ infos), s2)
           | (Threw e, s2) \<Rightarrow> (Threw e, s2)
           | (Diverged, s2) \<Rightarrow> (Diverged, s2)))"

text \<open>"Checkin all files".\<close>

fun checkinAll :: "config \<Rightarrow> world \<Rightarrow> fileInfo list \<Rightarrow> state \<Rightarrow> unit outcome \<times> state" where
  "checkinAll C W [] s = (Returned (), s)"
| "checkinAll C W (info # infos) s =
     (case checkinFile C W info s of
        (Returned _, s1) \<Rightarrow> checkinAll C W infos s1
      | (Threw e, s1) \<Rightarrow> (Threw e, s1)
      | (Diverged, s1) \<Rightarrow> (Diverged, s1))"

text \<open>The \<open>-log\<close> branch of \<open>main\<close>, after \<open>args.shift()\<close>.\<close>

definition logMode :: "config \<Rightarrow> world \<Rightarrow> int \<Rightarrow> string list \<Rightarrow> state \<Rightarrow> ending \<times> state" where
  "logMode C W maxFiles args s =
     (if int (length args) > maxFiles then
        (Exit 1,
         console_error ''Use -n NUM to increase the limit, e.g.: vic -n 5 -log file1 file2 ...''
           (console_error (tooMany (length args) maxFiles) s))
      else (case showAll C W args s of (r, s1) \<Rightarrow> (ending_of r, s1)))"

text \<open>The \<open>-diff\<close> branch of \<open>main\<close>, after \<open>args.shift()\<close>.\<close>

definition diffUsage :: "state \<Rightarrow> state" where
  "diffUsage s =
     console_error ''  vic -diff 1.1 1.3 file.js    # diff 1.1 vs 1.3''
       (console_error ''  vic -diff 1.1 file.js        # diff 1.1 vs current''
          (console_error ''Usage: vic -diff REV [REV] file'' s))"

definition diffMode :: "config \<Rightarrow> world \<Rightarrow> string list \<Rightarrow> state \<Rightarrow> ending \<times> state" where
  "diffMode C W args s =
     (case args of
        [] \<Rightarrow> (Exit 1, diffUsage s)
      | rev1 # args1 \<Rightarrow>
          (if rev1 = [] \<or> \<not> revPattern rev1 then (Exit 1, diffUsage s)
           else
             (let (rev2, args2) =
                    (case args1 of
                       [] \<Rightarrow> (None, args1)
                     | a # rest \<Rightarrow> if a \<noteq> [] \<and> revPattern a then (Some a, rest) else (None, args1))
              in case args2 of
                   [f] \<Rightarrow> (case showDiff C W f rev1 rev2 s of (r, s1) \<Rightarrow> (ending_of r, s1))
                 | _ \<Rightarrow> (Exit 1, console_error ''Error: -diff requires exactly 1 file'' s))))"

text \<open>\<open>main\<close> from "Limit file count" to its end.\<close>

definition editMode :: "config \<Rightarrow> world \<Rightarrow> int \<Rightarrow> string list \<Rightarrow> state \<Rightarrow> ending \<times> state" where
  "editMode C W maxFiles args s =
     (if int (length args) > maxFiles then
        (Exit 1,
         console_error ''Use -n NUM to increase the limit, e.g.: vic -n 5 file1 file2 ...''
           (console_error (tooMany (length args) maxFiles) s))
      else
        (let s1 = console_log [] s
         in if startsWith (cwd C) (XCS_ROOT C @ ''/'') \<or> cwd C = XCS_ROOT C then
              (Return, emit (SpawnEditor (EDITOR C) args) s1)
            else
              (case checkoutAll C W args s1 of
                 (Diverged, s2) \<Rightarrow> (NoEnd, s2)
               | (Threw e, s2) \<Rightarrow> (Uncaught e, s2)
               | (Returned checkedOutFiles, s2) \<Rightarrow>
                   (if checkedOutFiles = [] then
                      (Return, closeReadline (console_log ''No files to edit.'' s2))
                    else
                      (let s3 = emit (SpawnEditor (EDITOR C) (map fname checkedOutFiles))
                                  (closeReadline s2);
                           s4 = (if length checkedOutFiles > 1 then console_log [] s3 else s3)
                       in case checkinAll C W checkedOutFiles s4 of
                            (Returned _, s5) \<Rightarrow> (Return, closeReadline s5)
                          | (Threw e, s5) \<Rightarrow> (Uncaught e, s5)
                          | (Diverged, s5) \<Rightarrow> (NoEnd, s5))))))"

text \<open>\<open>args.shift()\<close>.\<close>

definition shift :: "string list \<Rightarrow> string option \<times> string list" where
  "shift args = (case args of [] \<Rightarrow> (None, []) | a # rest \<Rightarrow> (Some a, rest))"

definition main :: "config \<Rightarrow> world \<Rightarrow> string list \<Rightarrow> ending \<times> state" where
  "main C W argv =
     (if argv = [] then
        (Exit 1,
         console_error ''Usage: vic [-pc] [-n NUM] [-log] [-diff REV [REV]] file1 ...'' init)
      else if RCS_ROOT C = ''.'' \<or> RCS_ROOT C = [] then
        (Exit 1, console_error ''No RCS found! Install: brew install rcs'' init)
      else if ''--version'' \<in> set argv then (Exit 0, console_log VERSION init)
      else
        (let (args1, s1) = (if take 1 argv = [''-pc'']
                            then (snd (shift argv), init\<lparr>enableSyntaxCheck := True\<rparr>)
                            else (argv, init));
             (maxFiles, args2) = (if take 1 args1 = [''-n'']
                                  then (let (x, rest) = shift (snd (shift args1))
                                        in (maxFiles_of x, rest))
                                  else (3, args1))
         in if take 1 args2 = [''-log''] then logMode C W maxFiles (snd (shift args2)) s1
            else if take 1 args2 = [''-diff''] then diffMode C W (snd (shift args2)) s1
            else editMode C W maxFiles args2 s1))"



text \<open>
  The calls that read, write or ask for directory metadata: the commands of
  \<open>getXattrPath\<close>, \<open>setXattrPath\<close> and \<open>removeXattr\<close> start with the program \<open>xattr\<close>,
  \<open>getfattr\<close> or \<open>setfattr\<close>, and the question of \<open>promptForRcsPath\<close> starts with its
  hint. A state is \<open>clean\<close> when its trace has none of them.
\<close>

definition touches_metadata :: "call \<Rightarrow> bool" where
  "touches_metadata c =
     (case c of
        ExecSync cmd \<Rightarrow> startsWith cmd ''xattr '' \<or> startsWith cmd ''getfattr ''
                         \<or> startsWith cmd ''setfattr ''
      | Question q \<Rightarrow> startsWith q ''  hint: ''
      | _ \<Rightarrow> False)"

definition clean :: "state \<Rightarrow> bool" where
  "clean s = list_all (\<lambda>c. \<not> touches_metadata c) (trace s)"

section \<open>The text of a backend log\<close>

text \<open>Lines put together, each ended by a line feed.\<close>

definition unlines :: "string list \<Rightarrow> string" where
  "unlines ls = concat (map (\<lambda>l. l @ [nl]) ls)"

text \<open>
  What \<open>rlog\<close> prints for one store entry, as the loop of \<open>showCommits\<close> reads it: header
  lines, then for each revision, newest first, a line of 28 dashes, the line
  \<open>revision ID\<close>, the date line and the lines of the log message, and a last line of
  equals signs.
\<close>

record revision =
  rid :: string
  date_line :: string
  message :: "string list"

definition dashes :: string where
  "dashes = ''----------------------------''"

definition revision_block :: "revision \<Rightarrow> string list" where
  "revision_block r = [dashes, ''revision '' @ rid r, date_line r] @ message r"

definition terminator :: string where
  "terminator = ''=============================================================================''"

definition log_text :: "string list \<Rightarrow> revision list \<Rightarrow> string" where
  "log_text header revs = unlines (header @ concat (map revision_block revs) @ [terminator])"

text \<open>
  A message line that the loop takes for a message line, a message line that the loop
  counts as message text, and a revision that the loop reads as it was written.
\<close>

definition message_line :: "string \<Rightarrow> bool" where
  "message_line l \<longleftrightarrow>
     nl \<notin> set l \<and> \<not> startsWith l ''revision '' \<and> \<not> startsWith l dashes \<and> \<not> startsWith l ''===''"

definition counted :: "string \<Rightarrow> bool" where
  "counted l \<longleftrightarrow> l \<noteq> [] \<and> \<not> startsWith l ''date:'' \<and> \<not> startsWith l ''branches:''"

definition well_formed :: "revision \<Rightarrow> bool" where
  "well_formed r \<longleftrightarrow>
     nl \<notin> set (rid r) \<and> trim (rid r) \<noteq> [] \<and>
     nl \<notin> set (date_line r) \<and> startsWith (date_line r) ''date: '' \<and>
     list_all message_line (message r) \<and> list_ex counted (message r)"

text \<open>The state of the parsing loop between two lines: outside a revision nothing is
  pending; inside, the revision has an id and some message. \<open>ids\<close> are the ids pushed
  so far, and the one that the next marker will push.\<close>

definition good :: "parser \<Rightarrow> bool" where
  "good p \<longleftrightarrow> (if inRevision p then currentRev p \<noteq> [] \<and> currentMsg p \<noteq> [] else currentRev p = [])"

definition ids :: "parser \<Rightarrow> string list" where
  "ids p = map rev_id (entries p) @ (if inRevision p then [currentRev p] else [])"

section \<open>Example environments\<close>

text \<open>Path functions for the examples: \<open>dirname\<close> and \<open>basename\<close> as Node computes them on
  paths with no trailing and no doubled slash, and \<open>resolve\<close> against a working
  directory.\<close>

definition dirname0 :: "string \<Rightarrow> string" where
  "dirname0 p =
     (if CHR ''/'' \<notin> set p then ''.''
      else (let d = rev (drop 1 (dropWhile (\<lambda>c. c \<noteq> CHR ''/'') (rev p)))
            in if d = [] then ''/'' else d))"

definition basename0 :: "string \<Rightarrow> string" where
  "basename0 p = rev (takeWhile (\<lambda>c. c \<noteq> CHR ''/'') (rev p))"

definition cfg0 :: config where
  "cfg0 = \<lparr>RCS_ROOT = ''/usr/bin'', EDITOR = ''vi'', HOME_DIR = ''/home/u'',
           CLAUDE_CLI = ''/usr/bin/claude'', IS_MACOS = False, pid = ''4242'',
           cwd = ''/home/u/work'',
           resolve = (\<lambda>p. if startsWith p ''/'' then p else ''/home/u/work/'' @ p),
           dirname = dirname0, basename = basename0\<rparr>"


definition plain_file :: stats where
  "plain_file = \<lparr>nlink = 1, mode = 33188, isFile = True, isSymbolicLink = False\<rparr>"

text \<open>A world where every path exists, every command ends with status 0 and prints
  nothing, and the user answers with an empty line.\<close>

definition w_quiet :: world where
  "w_quiet = \<lparr>fs_exists = (\<lambda>h p. True),
              fs_lstat = (\<lambda>h p. Inr plain_file),
              fs_realpath = (\<lambda>h p. Inr p),
              fs_write = (\<lambda>h p. None),
              fs_stat = (\<lambda>h p. Inr plain_file),
              fs_mkdir = (\<lambda>h p. None),
              run = (\<lambda>h c. Inr \<lparr>status = Some 0, stdout = []\<rparr>),
              claude = (\<lambda>h a. Inr \<lparr>status = Some 0, stdout = []\<rparr>),
              ask = (\<lambda>h q. []),
              lint = (\<lambda>h p. True)\<rparr>"



text \<open>No local store; the directory carries the hint \<open>projects/app\<close>, and the remote store
  \<open>/home/u/.xcs/projects/app\<close> is gone. The user answers with an empty line.\<close>

definition w_stale :: world where
  "w_stale = w_quiet\<lparr>
     fs_exists := (\<lambda>h p. p \<noteq> ''/home/u/work/.rcs'' \<and> p \<noteq> ''/home/u/.xcs/projects/app''),
     run := (\<lambda>h c. Inr \<lparr>status = Some 0, stdout = ''projects/app'' @ [nl]\<rparr>)\<rparr>"

text \<open>What \<open>checkoutFile\<close> has gathered on \<open>notes.txt\<close> when it reaches the checkout
  command in the quiet world.\<close>

definition info0 :: fileInfo where
  "info0 = \<lparr>fname = ''notes.txt'', rcsFile = ''/home/u/work/.rcs/notes.txt,v'',
            baseName = ''notes.txt'', originalMode = 33188, rcsBasePath = None\<rparr>"

text \<open>Backend logs for the history query.\<close>

definition log_header :: "string list" where
  "log_header =
     [''RCS file: .rcs/log-test.js,v'', ''Working file: log-test.js'', ''head: 1.3'',
      ''branch:'', ''locks: strict'', ''access list:'', ''symbolic names:'',
      ''keyword substitution: kv'',
      ''total revisions: 3;'' @ [CHR 0x09] @ ''selected revisions: 3'', ''description:'']"

definition rev13 :: revision where
  "rev13 = \<lparr>rid = ''1.3'',
            date_line = ''date: 2026/01/20 10:32:00;  author: casey;  state: Exp;  lines: +1 -1'',
            message = [''Third version'']\<rparr>"

definition rev12 :: revision where
  "rev12 = \<lparr>rid = ''1.2'',
            date_line = ''date: 2026/01/20 10:31:00;  author: casey;  state: Exp;  lines: +1 -1'',
            message = [''Second version'']\<rparr>"

definition rev11 :: revision where
  "rev11 = \<lparr>rid = ''1.1'',
            date_line = ''date: 2026/01/20 10:30:00;  author: casey;  state: Exp;'',
            message = [''Initial checkin'']\<rparr>"

definition log_three :: string where
  "log_three = log_text log_header [rev13, rev12, rev11]"

text \<open>The same three revisions, the second checked in with the message \<open>date: bump\<close>.\<close>

definition log_date_message :: string where
  "log_date_message = log_text log_header [rev13, rev12\<lparr>message := [''date: bump'']\<rparr>, rev11]"

section \<open>The tests of the repository\<close>

text \<open>The model gives what the unit tests and the command line tests of the repository
  expect: the hints of \<open>getPathHint\<close>, the walk of \<open>findXcsBundleRoot\<close>, and the exits of
  \<open>main\<close> on bad command lines.\<close>

lemma getPathHint_tests:
  "getPathHint cfg0 (HOME_DIR cfg0 @ ''/Projects/myproject'') = ''Projects/myproject''"
  "getPathHint cfg0 ''/Volumes/MyDrive/Projects/myproject'' = ''Projects/myproject''"
  "getPathHint cfg0 ''/usr/local/bin'' = ''usr/local/bin''"
  "getPathHint cfg0 ''/some/path/'' = ''some/path''"
  by code_simp+

lemma findXcsBundleRoot_tests:
  "walk cfg0 ''/home/u/work/test.xcs/subdir'' = Returned (Some ''/home/u/work/test.xcs'')"
  "walk cfg0 ''/home/u/work/plain'' = Returned None"
  "walk cfg0 (HOME_DIR cfg0) = Returned None"
  by code_simp+

lemma cli_tests:
  "fst (main cfg0 w_quiet []) = Exit 1"
  "main cfg0 w_quiet [''--version''] = (Exit 0, init\<lparr>trace := [ConsoleLog VERSION]\<rparr>)"
  "fst (main cfg0 w_quiet [''-n'', ''2'', ''file1.js'', ''file2.js'', ''file3.js'']) = Exit 1"
  "main cfg0 w_quiet [''f1.js'', ''f2.js'', ''f3.js'', ''f4.js''] =
     (Exit 1, init\<lparr>trace :=
        [ConsoleError ''Too many files (4). Maximum is 3.'',
         ConsoleError ''Use -n NUM to increase the limit, e.g.: vic -n 5 file1 file2 ...'']\<rparr>)"
  "fst (main cfg0 w_quiet [''-n'', ''2'', ''-log'', ''f1.js'', ''f2.js'', ''f3.js'']) = Exit 1"
  "fst (main cfg0 w_quiet [''-diff'', ''file.js'']) = Exit 1"
  "fst (main cfg0 w_quiet [''-diff'', ''invalid'', ''file.js'']) = Exit 1"
  "main cfg0 w_quiet [''-diff'', ''1.1'', ''file1.js'', ''file2.js''] =
     (Exit 1, init\<lparr>trace := [ConsoleError ''Error: -diff requires exactly 1 file'']\<rparr>)"
  "fst (main (cfg0\<lparr>RCS_ROOT := ''.''\<rparr>) w_quiet [''test.js'']) = Exit 1"
  by code_simp+

section \<open>The commit message\<close>

lemma sanitize_props:
  "dq \<notin> set (sanitize m) \<and> nl \<notin> set (sanitize m) \<and> length (sanitize m) \<le> 200"
proof -
  have a: "dq \<notin> set (replaceAll nl CHR '' '' (replaceAll dq sq m))"
    by (auto simp: replaceAll_def dq_def sq_def nl_def)
  have b: "nl \<notin> set (replaceAll nl CHR '' '' (replaceAll dq sq m))"
    by (auto simp: replaceAll_def dq_def sq_def nl_def)
  from a b show ?thesis
    unfolding sanitize_def by (auto dest: in_set_takeD)
qed

lemma sentinel_props: "dq \<notin> set ''-'' \<and> nl \<notin> set ''-'' \<and> length ''-'' \<le> 200"
  by (simp add: dq_def nl_def)

lemma generateCommitMessage_cases:
  "fst (generateCommitMessage C W diff s) = ''-'' \<or>
   (\<exists>m. fst (generateCommitMessage C W diff s) = sanitize m)"
  by (auto simp: generateCommitMessage_def Let_def split: sum.splits)

lemma generateCommitMessage_props:
  "dq \<notin> set (fst (generateCommitMessage C W diff s)) \<and>
   nl \<notin> set (fst (generateCommitMessage C W diff s)) \<and>
   length (fst (generateCommitMessage C W diff s)) \<le> 200"
  using generateCommitMessage_cases [of C W diff s] sanitize_props sentinel_props
  by metis

lemma checkinMessage_cases:
  "fst (checkinMessage C W tmp s) = ''-'' \<or>
   (\<exists>d t. fst (checkinMessage C W tmp s) = fst (generateCommitMessage C W d t))"
  by (auto simp: checkinMessage_def Let_def split_def split: sum.splits)

text \<open>
  C6. Whatever the diff and whatever the summarizer prints, the message that
  \<open>generateCommitMessage\<close> returns has no double quote and no line feed and is at most 200
  characters long; it is the sentinel \<open>-\<close> when the diff is empty or white space, when
  there is no summarizer, and when the summarizer cannot be run or does not end with
  status 0 (a timeout leaves no status). The message that \<open>checkinFile\<close> hands to the
  checkin command has the same three properties.
\<close>

theorem commit_message_sanitized:
  "(let m = fst (generateCommitMessage C W diff s) in
      dq \<notin> set m \<and> nl \<notin> set m \<and> length m \<le> 200 \<and>
      (trim diff = [] \<or> CLAUDE_CLI C = []
         \<or> (\<exists>e. claude W (trace s) (claude_argv diff) = Inl e)
         \<or> (\<exists>r. claude W (trace s) (claude_argv diff) = Inr r \<and> status r \<noteq> Some 0)
       \<longrightarrow> m = ''-''))
   \<and> (let m = fst (checkinMessage C W tmp s) in
        dq \<notin> set m \<and> nl \<notin> set m \<and> length m \<le> 200)"
proof -
  have sentinel: "fst (generateCommitMessage C W diff s) = ''-''"
    if "trim diff = [] \<or> CLAUDE_CLI C = []
         \<or> (\<exists>e. claude W (trace s) (claude_argv diff) = Inl e)
         \<or> (\<exists>r. claude W (trace s) (claude_argv diff) = Inr r \<and> status r \<noteq> Some 0)"
    using that by (auto simp: generateCommitMessage_def Let_def)
  have ci: "dq \<notin> set (fst (checkinMessage C W tmp s)) \<and> nl \<notin> set (fst (checkinMessage C W tmp s))
            \<and> length (fst (checkinMessage C W tmp s)) \<le> 200"
    using checkinMessage_cases [of C W tmp s] generateCommitMessage_props sentinel_props
    by metis
  show ?thesis
    unfolding Let_def using generateCommitMessage_props [of C W diff s] sentinel ci by blast
qed

text \<open>A diff of two spaces gives the sentinel.\<close>

theorem commit_message_sanitized_witness:
  "trim ''  '' = [] \<and> fst (generateCommitMessage cfg0 w_quiet ''  '' init) = ''-''"
proof -
  have h: "trim ''  '' = []"
    by (simp add: trim_def isWhiteSpace_def)
  from commit_message_sanitized [of cfg0 w_quiet "''  ''" init] h show ?thesis
    unfolding Let_def by blast
qed

section \<open>The lock holder\<close>








section \<open>The history query\<close>

lemma split_nl_line: "nl \<notin> set l \<Longrightarrow> split_nl (l @ nl # rest) = l # split_nl rest"
  by (induction l) (auto split: list.splits)

lemma split_nl_unlines:
  "list_all (\<lambda>l. nl \<notin> set l) ls \<Longrightarrow> split_nl (unlines ls) = ls @ [[]]"
  by (induction ls) (simp_all add: unlines_def split_nl_line)

lemma date_not_counted: "startsWith l ''date: '' \<Longrightarrow> \<not> counted l"
proof -
  assume "startsWith l ''date: ''"
  then obtain rest where "l = ''date: '' @ rest"
    by (auto simp: startsWith_def prefix_def)
  then show ?thesis
    by (simp add: counted_def startsWith_def)
qed

lemma parse_message_line:
  assumes "message_line l" and "inRevision p"
  shows "inRevision (parse_line p l) \<and> currentRev (parse_line p l) = currentRev p
       \<and> entries (parse_line p l) = entries p
       \<and> currentMsg (parse_line p l) = currentMsg p @ (if counted l then [l] else [])"
proof (cases "startsWith l ''date: ''")
  case True
  with assms date_not_counted [of l] show ?thesis
    by (simp add: parse_line_def message_line_def dashes_def split: option.splits)
next
  case False
  with assms show ?thesis
    by (simp add: parse_line_def message_line_def counted_def dashes_def)
qed

lemma parse_message:
  "list_all message_line ls \<Longrightarrow> inRevision p \<Longrightarrow>
   inRevision (foldl parse_line p ls) \<and> currentRev (foldl parse_line p ls) = currentRev p
     \<and> entries (foldl parse_line p ls) = entries p
     \<and> currentMsg (foldl parse_line p ls) = currentMsg p @ filter counted ls"
proof (induction ls arbitrary: p)
  case Nil
  then show ?case by simp
next
  case (Cons l ls)
  from Cons.prems have l: "message_line l" and ls: "list_all message_line ls" by simp_all
  note step = parse_message_line [OF l Cons.prems(2)]
  from step have "inRevision (parse_line p l)" by simp
  from Cons.IH [OF ls this] step show ?case by simp
qed

lemma parse_dashes:
  assumes "good p"
  shows "\<not> inRevision (parse_line p dashes) \<and> currentRev (parse_line p dashes) = []
       \<and> map rev_id (entries (parse_line p dashes)) = ids p"
proof (cases "inRevision p")
  case True
  with assms show ?thesis
    by (simp add: parse_line_def dashes_def startsWith_def good_def ids_def push_entry_def)
next
  case False
  with assms show ?thesis
    by (simp add: parse_line_def dashes_def startsWith_def good_def ids_def)
qed

lemma parse_revision:
  assumes "\<not> inRevision p" and "currentRev p = []"
  shows "inRevision (parse_line p (''revision '' @ i))
       \<and> currentRev (parse_line p (''revision '' @ i)) = trim i
       \<and> currentMsg (parse_line p (''revision '' @ i)) = []
       \<and> entries (parse_line p (''revision '' @ i)) = entries p"
  using assms by (simp add: parse_line_def startsWith_def push_entry_def)

lemma parse_date:
  assumes "inRevision p" and "startsWith d ''date: ''"
  shows "inRevision (parse_line p d) \<and> currentRev (parse_line p d) = currentRev p
       \<and> currentMsg (parse_line p d) = currentMsg p \<and> entries (parse_line p d) = entries p"
proof -
  from assms(2) obtain rest where "d = ''date: '' @ rest"
    by (auto simp: startsWith_def prefix_def)
  then have "\<not> startsWith d ''revision ''"
    by (simp add: startsWith_def)
  with assms show ?thesis
    by (simp add: parse_line_def split: option.splits)
qed

lemma parse_opening:
  assumes "good p" and "trim i \<noteq> []" and "startsWith d ''date: ''"
  shows "\<exists>q. foldl parse_line p [dashes, ''revision '' @ i, d] = q
           \<and> inRevision q \<and> currentRev q = trim i \<and> currentMsg q = []
           \<and> map rev_id (entries q) = ids p"
proof -
  note a = parse_dashes [OF assms(1)]
  from a have a1: "\<not> inRevision (parse_line p dashes)" and a2: "currentRev (parse_line p dashes) = []"
    by simp_all
  note b = parse_revision [OF a1 a2, of i]
  from b have b1: "inRevision (parse_line (parse_line p dashes) (''revision '' @ i))"
    by simp
  note c = parse_date [OF b1 assms(3)]
  from a b c show ?thesis by simp
qed

lemma parse_block:
  assumes "good p" and "well_formed r"
  shows "good (foldl parse_line p (revision_block r))
       \<and> ids (foldl parse_line p (revision_block r)) = ids p @ [trim (rid r)]"
proof -
  from assms(2) have w: "nl \<notin> set (rid r)" "trim (rid r) \<noteq> []" "startsWith (date_line r) ''date: ''"
    "list_all message_line (message r)" "list_ex counted (message r)"
    by (simp_all add: well_formed_def)
  from parse_opening [OF assms(1) w(2,3)] obtain q where
    q: "foldl parse_line p [dashes, ''revision '' @ rid r, date_line r] = q"
       "inRevision q" "currentRev q = trim (rid r)" "currentMsg q = []"
       "map rev_id (entries q) = ids p"
    by blast
  have f: "foldl parse_line p (revision_block r) = foldl parse_line q (message r)"
    unfolding revision_block_def foldl_append q(1) ..
  note m = parse_message [OF w(4) q(2)]
  from w(5) have "filter counted (message r) \<noteq> []"
    by (simp add: filter_empty_conv list_ex_iff)
  with m q w(2) show ?thesis
    unfolding f by (simp add: good_def ids_def)
qed

lemma parse_blocks:
  "good p \<Longrightarrow> list_all well_formed revs \<Longrightarrow>
   good (foldl parse_line p (concat (map revision_block revs)))
     \<and> ids (foldl parse_line p (concat (map revision_block revs))) = ids p @ map (\<lambda>r. trim (rid r)) revs"
proof (induction revs arbitrary: p)
  case Nil
  then show ?case by simp
next
  case (Cons r revs)
  from Cons.prems have r: "well_formed r" and rs: "list_all well_formed revs" by simp_all
  note b = parse_block [OF Cons.prems(1) r]
  from b have "good (foldl parse_line p (revision_block r))" by simp
  from Cons.IH [OF this rs] b show ?case by simp
qed

lemma parse_header:
  "list_all (\<lambda>l. \<not> startsWith l ''revision '') header \<Longrightarrow>
   foldl parse_line parser0 header = parser0"
proof (induction header)
  case Nil
  then show ?case by simp
next
  case (Cons l ls)
  then have "parse_line parser0 l = parser0"
    by (simp add: parse_line_def parser0_def)
  with Cons show ?case by simp
qed

lemma parse_end:
  assumes "good p"
  shows "map rev_id (entries (parse_line (parse_line p terminator) [])) = ids p"
proof -
  have t: "startsWith terminator ''==='' \<and> \<not> startsWith terminator ''revision ''
           \<and> \<not> startsWith terminator ''date: '' \<and> \<not> startsWith terminator dashes"
    by (simp add: startsWith_def dashes_def terminator_def)
  have "map rev_id (entries (parse_line p terminator)) = ids p"
  proof (cases "inRevision p")
    case True
    with assms t show ?thesis
      by (simp add: parse_line_def good_def ids_def push_entry_def)
  next
    case False
    with assms t show ?thesis
      by (simp add: parse_line_def good_def ids_def)
  qed
  moreover have "parse_line q [] = q" for q
    by (simp add: parse_line_def startsWith_def)
  ultimately show ?thesis by simp
qed

lemma block_lines: "well_formed r \<Longrightarrow> list_all (\<lambda>l. nl \<notin> set l) (revision_block r)"
  by (auto simp: well_formed_def revision_block_def dashes_def nl_def message_line_def list_all_iff)

lemma history_well_formed:
  assumes h: "list_all (\<lambda>l. nl \<notin> set l \<and> \<not> startsWith l ''revision '') header"
    and w: "list_all well_formed revs"
  shows "map rev_id (history (log_text header revs)) = rev (map (\<lambda>r. trim (rid r)) revs)"
proof -
  let ?ls = "header @ concat (map revision_block revs) @ [terminator]"
  have lines: "list_all (\<lambda>l. nl \<notin> set l) ?ls"
    using h w block_lines by (auto simp: list_all_iff nl_def terminator_def)
  have h0: "foldl parse_line parser0 header = parser0"
    using h by (intro parse_header) (simp add: list_all_iff)
  have g0: "good parser0" and i0: "ids parser0 = []"
    by (simp_all add: good_def ids_def parser0_def)
  note b = parse_blocks [OF g0 w]
  let ?p = "foldl parse_line parser0 (concat (map revision_block revs))"
  have "parseLog (log_text header revs)
          = entries (parse_line (parse_line ?p (terminator)) [])"
    by (simp add: parseLog_def log_text_def split_nl_unlines [OF lines] h0)
  then have "map rev_id (parseLog (log_text header revs)) = ids ?p"
    using parse_end [of ?p] b by simp
  with b i0 show ?thesis
    by (simp add: history_def rev_map [symmetric])
qed

text \<open>A log whose revisions are all well formed gives one entry for each, oldest first.\<close>

lemma history_three_revisions:
  "map rev_id (history log_three) = [''1.1'', ''1.2'', ''1.3'']"
proof -
  have h: "list_all (\<lambda>l. nl \<notin> set l \<and> \<not> startsWith l ''revision '') log_header"
    by (simp add: log_header_def nl_def startsWith_def)
  have w: "list_all well_formed [rev13, rev12, rev11]"
    by (simp add: well_formed_def rev13_def rev12_def rev11_def nl_def trim_def isWhiteSpace_def
          startsWith_def message_line_def counted_def dashes_def)
  have t: "map (\<lambda>r. trim (rid r)) [rev13, rev12, rev11] = [''1.3'', ''1.2'', ''1.1'']"
    by (simp add: rev13_def rev12_def rev11_def trim_def isWhiteSpace_def)
  from history_well_formed [OF h w] show ?thesis
    unfolding log_three_def t by simp
qed

text \<open>
  C8. A log with \<open>N\<close> revisions, newest first, should give \<open>N\<close> entries, oldest first. The
  log \<open>log_date_message\<close> has the three revisions 1.3, 1.2 and 1.1; revision 1.2 was
  checked in with the message \<open>date: bump\<close>, which is not \<open>counted\<close>. The loop takes that
  line for a date line, finds no message for 1.2 and drops the revision: two entries
  are printed.
\<close>

theorem history_drops_revision:
  "map rev_id (history log_date_message) = [''1.1'', ''1.3'']"
  by code_simp

section \<open>The command line\<close>





text \<open>A ceiling written in decimal is read back as it was written.\<close>

lemma digit_char: "d < 10 \<Longrightarrow> isDigit (char_of (48 + d)) \<and> digit_val (char_of (48 + d)) = d"
  by (simp add: isDigit_def digit_val_def)

lemma digit_not_ws: "isDigit c \<Longrightarrow> \<not> isWhiteSpace c \<and> c \<noteq> CHR ''-'' \<and> c \<noteq> CHR ''+''"
  by (auto simp: isDigit_def isWhiteSpace_def)

lemma dec_digits: "list_all isDigit (dec n) \<and> dec n \<noteq> []"
proof (induction n rule: dec.induct)
  case (1 n)
  show ?case
  proof (cases "n < 10")
    case True
    then show ?thesis by (subst dec.simps, subst dec.simps) (simp add: digit_char)
  next
    case False
    with 1 have "list_all isDigit (dec (n div 10))" by simp
    with False show ?thesis
      by (subst dec.simps, subst dec.simps) (simp add: digit_char)
  qed
qed

lemma dec_value: "foldl (\<lambda>a c. 10 * a + digit_val c) 0 (dec n) = n"
proof (induction n rule: dec.induct)
  case (1 n)
  show ?case
  proof (cases "n < 10")
    case True
    then show ?thesis by (subst dec.simps) (simp add: digit_char)
  next
    case False
    with 1 have "foldl (\<lambda>a c. 10 * a + digit_val c) 0 (dec (n div 10)) = n div 10" by simp
    with False show ?thesis
      by (subst dec.simps) (simp add: digit_char)
  qed
qed

lemma parseInt_dec: "parseInt (Some (dec n)) = Some (int n)"
proof -
  have ne: "dec n \<noteq> []" and digits: "list_all isDigit (dec n)"
    using dec_digits [of n] by simp_all
  from ne digits have h: "isDigit (hd (dec n))"
    by (cases "dec n") simp_all
  have tw: "takeWhile isDigit (dec n) = dec n"
    using digits by (simp add: list_all_iff)
  have dw: "dropWhile isWhiteSpace (dec n) = dec n"
    using h digit_not_ws by (simp add: dropWhile_eq_self_iff)
  from h have sign: "hd (dec n) \<noteq> CHR ''-''" "hd (dec n) \<noteq> CHR ''+''"
    using digit_not_ws by auto
  show ?thesis
    unfolding parseInt_def using ne by (simp add: Let_def dw tw sign dec_value)
qed

lemma maxFiles_of_dec: "0 < n \<Longrightarrow> maxFiles_of (Some (dec n)) = int n"
  by (simp add: maxFiles_of_def parseInt_dec)






section \<open>Steps of checkoutFile\<close>

lemma prompt_eq:
  "prompt W q s =
     (ask W (trace s @ (if rl s then [] else [CreateInterface])) q,
      s\<lparr>trace := trace s @ (if rl s then [] else [CreateInterface]) @ [Question q], rl := True\<rparr>)"
  by (simp add: prompt_def emit_def Let_def)






lemma checkoutAll_skip:
  "fst (checkoutFile C W f s) = Returned None \<Longrightarrow>
   checkoutAll C W (f # fs) s = checkoutAll C W fs (snd (checkoutFile C W f s))"
  by (cases "checkoutFile C W f s"; cases "checkoutAll C W fs (snd (checkoutFile C W f s))")
     (auto split: outcome.splits)

text \<open>
  C3. When everything before the checkout command went through, the command ends with
  status 0, and the lock holder asked right after it is the empty string, then
  \<open>checkoutFile\<close> returns \<open>null\<close> after "Could not lock", and the batch goes on as if the
  file had not been named: no \<open>fileInfo\<close> is added for it.
\<close>

theorem checkout_without_lock_fails:
  assumes "prepare C W f0 s = (Returned (Some info), s0)"
    and "shell W (RCS_CHECKOUT C @ '' '' @ quoted (fname info) @ '' '' @ quoted (rcsFile info)) False s0
           = (coResult, s1)"
    and "status coResult = Some 0"
    and "fst (getLockersName C W (fname info) (rcsBasePath info) s1) = []"
  shows "fst (checkoutFile C W f0 s) = Returned None
       \<and> last (trace (snd (checkoutFile C W f0 s))) = ConsoleLog (''Could not lock '' @ fname info @ ''.'')
       \<and> checkoutAll C W (f0 # fs) s = checkoutAll C W fs (snd (checkoutFile C W f0 s))"
proof -
  have co: "checkout C W info s0 =
      (Returned None,
       console_log (''Could not lock '' @ fname info @ ''.'')
         (snd (getLockersName C W (fname info) (rcsBasePath info) s1)))"
    using assms(2-4) by (simp add: checkout_def Let_def split_def)
  have cf: "checkoutFile C W f0 s = checkout C W info s0"
    using assms(1) by (simp add: checkoutFile_def andThen_def)
  have 1: "fst (checkoutFile C W f0 s) = Returned None"
    by (simp add: cf co)
  have 2: "last (trace (snd (checkoutFile C W f0 s))) = ConsoleLog (''Could not lock '' @ fname info @ ''.'')"
    by (simp add: cf co console_log_def emit_def)
  from 1 2 checkoutAll_skip [OF 1] show ?thesis by simp
qed

text \<open>In the quiet world the checkout command succeeds and \<open>rlog\<close> prints nothing.\<close>

theorem checkout_without_lock_fails_witness:
  "fst (prepare cfg0 w_quiet ''notes.txt'' init) = Returned (Some info0)
   \<and> fst (checkoutFile cfg0 w_quiet ''notes.txt'' init) = Returned None"
proof -
  have p: "fst (prepare cfg0 w_quiet ''notes.txt'' init) = Returned (Some info0)"
    by code_simp
  then have h1: "prepare cfg0 w_quiet ''notes.txt'' init =
      (Returned (Some info0), snd (prepare cfg0 w_quiet ''notes.txt'' init))"
    by (simp add: prod_eq_iff)
  obtain coResult s1 where h2:
    "shell w_quiet (RCS_CHECKOUT cfg0 @ '' '' @ quoted (fname info0) @ '' '' @ quoted (rcsFile info0)) False
       (snd (prepare cfg0 w_quiet ''notes.txt'' init)) = (coResult, s1)"
    by (cases "shell w_quiet (RCS_CHECKOUT cfg0 @ '' '' @ quoted (fname info0) @ '' '' @ quoted (rcsFile info0)) False
       (snd (prepare cfg0 w_quiet ''notes.txt'' init))") blast
  then have h3: "status coResult = Some 0"
    by (auto simp: shell_def w_quiet_def)
  have h4: "fst (getLockersName cfg0 w_quiet (fname info0) (rcsBasePath info0) s1) = []"
    by (simp add: getLockersName_def execSync_grep_def w_quiet_def grep_def Let_def)
  from checkout_without_lock_fails [OF h1 h2 h3 h4] p show ?thesis by simp
qed



section \<open>A stale hint\<close>

lemma getXattrPath_Some:
  "getXattrPath C W d s = (Some v, s') \<Longrightarrow>
   v \<noteq> [] \<and> s' = s\<lparr>trace := trace s @ [ExecSync (xattr_get_command C d)]\<rparr>"
  by (auto simp: getXattrPath_def execSync_def emit_def Let_def split: sum.splits if_splits)

lemma execSync_snd: "snd (execSync W cmd s) = s\<lparr>trace := trace s @ [ExecSync cmd]\<rparr>"
  by (simp add: execSync_def emit_def)

lemma promptForRcsPath_eq:
  "promptForRcsPath C W localDir s =
     (let asked = trace s @ [ConsoleLog ''No RCS directory. Enter remote path or <enter>'']
                    @ (if rl s then [] else [CreateInterface])
      in (pathInfo_of C localDir (ask W asked (store_question C localDir)),
          s\<lparr>trace := asked @ [Question (store_question C localDir)], rl := True\<rparr>))"
  by (simp add: promptForRcsPath_def prompt_eq console_log_def emit_def Let_def)

lemma resolveByPrompt_props:
  "let asked = trace s @ [ConsoleLog ''No RCS directory. Enter remote path or <enter>'']
                 @ (if rl s then [] else [CreateInterface]);
       r = resolveByPrompt C W xattrDir localDir s
   in prefix (asked @ [Question (store_question C localDir)]) (trace (snd r))
    \<and> (fst r = Returned None
         \<or> fst r = Returned (Some (full (pathInfo_of C localDir (ask W asked (store_question C localDir))))))"
  by (simp add: resolveByPrompt_def promptForRcsPath_eq Let_def closeReadline_def emit_def
        console_log_def setXattrPath_def execSync_snd prefix_def split: option.splits)

text \<open>
  C5. When \<open>resolveRcsPath\<close> reads a hint whose store root does not exist, it runs the
  command that removes the hint, then asks the user for the store path, and what it
  returns is \<open>null\<close> or the path made from the answer to that question: the path of the
  stale hint is never returned without the question having been asked.
\<close>

theorem stale_hint_purged:
  assumes "findXcsBundleRoot C W filePath s = (Returned xcsRoot, s1)"
    and "getXattrPath C W (orElse xcsRoot fileDir) s1 = (Some v, s2)"
    and "\<not> fs_exists W (trace s2) (hintPath C (orElse xcsRoot fileDir) v)"
  shows "let d = orElse xcsRoot fileDir;
             purged = trace s2 @ [ExistsSync (hintPath C d v), ExecSync (xattr_remove_command C d)];
             asked = purged @ [ConsoleLog ''No RCS directory. Enter remote path or <enter>'']
                       @ (if rl s2 then [] else [CreateInterface]);
             answer = ask W asked (store_question C d);
             r = resolveRcsPath C W filePath fileDir s
         in prefix (asked @ [Question (store_question C d)]) (trace (snd r))
          \<and> (fst r = Returned None \<or> fst r = Returned (Some (full (pathInfo_of C d answer))))"
proof -
  let ?d = "orElse xcsRoot fileDir"
  let ?s3 = "removeXattr C W ?d (emit (ExistsSync (hintPath C ?d v)) s2)"
  from assms(2) have v: "v \<noteq> []"
    using getXattrPath_Some by blast
  have r: "resolveRcsPath C W filePath fileDir s = resolveByPrompt C W ?d ?d ?s3"
    using assms v by (simp add: resolveRcsPath_def Let_def)
  have t: "trace ?s3 = trace s2 @ [ExistsSync (hintPath C ?d v), ExecSync (xattr_remove_command C ?d)]"
    and l: "rl ?s3 = rl s2"
    by (simp_all add: removeXattr_def execSync_snd emit_def)
  from resolveByPrompt_props [of ?s3 C W ?d ?d] show ?thesis
    unfolding Let_def r t l by simp
qed

text \<open>The hint \<open>projects/app\<close> points at a remote store that is gone.\<close>

theorem stale_hint_purged_witness:
  "fst (getXattrPath cfg0 w_stale ''/home/u/work''
          (snd (findXcsBundleRoot cfg0 w_stale ''/home/u/work/notes.txt'' init))) = Some ''projects/app''
   \<and> hintPath cfg0 ''/home/u/work'' ''projects/app'' = ''/home/u/.xcs/projects/app''
   \<and> ExecSync (xattr_remove_command cfg0 ''/home/u/work'')
       \<in> set (trace (snd (resolveRcsPath cfg0 w_stale ''/home/u/work/notes.txt'' ''/home/u/work'' init)))"
proof -
  let ?f = "findXcsBundleRoot cfg0 w_stale ''/home/u/work/notes.txt'' init"
  let ?g = "getXattrPath cfg0 w_stale ''/home/u/work'' (snd ?f)"
  have f: "fst ?f = Returned None"
    by code_simp
  then have h1: "?f = (Returned None, snd ?f)"
    by (simp add: prod_eq_iff)
  have g: "fst ?g = Some ''projects/app''"
    by (simp add: getXattrPath_def execSync_def w_stale_def w_quiet_def Let_def trim_def
          isWhiteSpace_def nl_def)
  then have h2: "getXattrPath cfg0 w_stale (orElse None ''/home/u/work'') (snd ?f)
                   = (Some ''projects/app'', snd ?g)"
    by (simp add: prod_eq_iff orElse_def)
  have hp: "hintPath cfg0 ''/home/u/work'' ''projects/app'' = ''/home/u/.xcs/projects/app''"
    by (simp add: hintPath_def XCS_ROOT_def cfg0_def)
  have h3: "\<not> fs_exists w_stale (trace (snd ?g)) (hintPath cfg0 (orElse None ''/home/u/work'') ''projects/app'')"
    by (simp add: orElse_def hp w_stale_def w_quiet_def)
  note t = stale_hint_purged [OF h1 h2 h3]
  from t have "prefix (trace (snd ?g) @
        [ExistsSync (hintPath cfg0 ''/home/u/work'' ''projects/app''),
         ExecSync (xattr_remove_command cfg0 ''/home/u/work'')])
      (trace (snd (resolveRcsPath cfg0 w_stale ''/home/u/work/notes.txt'' ''/home/u/work'' init)))"
    unfolding Let_def orElse_def by (auto simp: prefix_def)
  then have "ExecSync (xattr_remove_command cfg0 ''/home/u/work'')
       \<in> set (trace (snd (resolveRcsPath cfg0 w_stale ''/home/u/work/notes.txt'' ''/home/u/work'' init)))"
    by (auto simp: prefix_def)
  with g hp show ?thesis by simp
qed

section \<open>The local store\<close>

text \<open>The predicate recognises the metadata calls of the program.\<close>

lemma metadata_calls:
  "touches_metadata (ExecSync (xattr_get_command C d))"
  "touches_metadata (ExecSync (xattr_set_command C d r))"
  "touches_metadata (ExecSync (xattr_remove_command C d))"
  "touches_metadata (Question (store_question C d))"
  by (simp_all add: touches_metadata_def xattr_get_command_def xattr_set_command_def
        xattr_remove_command_def store_question_def startsWith_def)

lemma clean_emit: "clean (emit c s) = (\<not> touches_metadata c \<and> clean s)"
  by (auto simp: clean_def emit_def)

lemma clean_rl [simp]: "clean (s\<lparr>rl := b\<rparr>) = clean s"
  by (simp add: clean_def)

lemma clean_log [simp]: "clean (console_log m s) = clean s"
  by (simp add: console_log_def clean_emit touches_metadata_def)

lemma clean_shell [simp]: "clean (snd (shell W cmd b s)) = clean s"
  by (simp add: shell_def clean_emit touches_metadata_def)























end
